theory Spec2Isabelle
  imports Main
begin

section \<open>JavaScript values and exceptions\<close>

text \<open>
  The request bodies of \<^verbatim>\<open>src/index.js\<close> are decoded by \<^verbatim>\<open>express.json()\<close>, so every
  value a handler reads from \<^verbatim>\<open>req.body\<close> is a JSON value. A number is held as the text
  that JavaScript's number-to-string conversion gives for it (the only thing the
  handlers do with a number is to put it into a template literal or to store it).
  An object is the list of its own properties, each key once, as \<^verbatim>\<open>JSON.parse\<close> leaves
  it. JavaScript's \<^verbatim>\<open>undefined\<close> is not a JSON value: a value that may be undefined is a
  \<open>json option\<close>, with \<open>None\<close> for \<^verbatim>\<open>undefined\<close>.
\<close>

datatype json =
    JNull
  | JBool bool
  | JNum string
  | JStr string
  | JArr "json list"
  | JObj "(string \<times> json) list"

text \<open>
  A thrown exception, with its \<^verbatim>\<open>message\<close>. The texts of the type errors are those of
  V8 (Node.js); no theorem below depends on their wording.
\<close>

datatype js_error = TypeError string | ExternalError string

fun message :: "js_error \<Rightarrow> string" where
  "message (TypeError msg) = msg"
| "message (ExternalError msg) = msg"

text \<open>Sequencing of computations that may throw: the first exception wins.\<close>

definition and_then :: "'e + 'a \<Rightarrow> ('a \<Rightarrow> 'e + 'b) \<Rightarrow> 'e + 'b" where
  "and_then r f = (case r of Inl e \<Rightarrow> Inl e | Inr v \<Rightarrow> f v)"

fun map_err :: "('a \<Rightarrow> 'e + 'b) \<Rightarrow> 'a list \<Rightarrow> 'e + 'b list" where
  "map_err f [] = Inr []"
| "map_err f (x # xs) =
     and_then (f x) (\<lambda>y. and_then (map_err f xs) (\<lambda>ys. Inr (y # ys)))"

text \<open>
  The property read \<^verbatim>\<open>o.k\<close>, for the property names the handlers read (\<^verbatim>\<open>role\<close>,
  \<^verbatim>\<open>content\<close>, \<^verbatim>\<open>messages\<close>, \<^verbatim>\<open>name\<close>, \<^verbatim>\<open>schema\<close>, \<^verbatim>\<open>schemaType\<close>, \<^verbatim>\<open>conversation\<close>), none of
  which a prototype defines: it throws on \<^verbatim>\<open>undefined\<close> and \<^verbatim>\<open>null\<close>, finds an own
  property of an object, and is \<^verbatim>\<open>undefined\<close> on every other value.
\<close>

definition quoted :: "string \<Rightarrow> string" where
  "quoted k = CHR 0x27 # k @ [CHR 0x27]"

fun get_prop :: "json option \<Rightarrow> string \<Rightarrow> js_error + json option" where
  "get_prop None k =
     Inl (TypeError (''Cannot read properties of undefined (reading '' @ quoted k @ '')''))"
| "get_prop (Some JNull) k =
     Inl (TypeError (''Cannot read properties of null (reading '' @ quoted k @ '')''))"
| "get_prop (Some (JObj kvs)) k = Inr (map_of kvs k)"
| "get_prop (Some v) k = Inr None"

text \<open>The destructuring \<^verbatim>\<open>const { k } = req.body\<close>: a property read with its own error.\<close>

fun destructure :: "json option \<Rightarrow> string \<Rightarrow> js_error + json option" where
  "destructure None k =
     Inl (TypeError (''Cannot destructure property '' @ quoted k @ '' of 'req.body' as it is undefined.''))"
| "destructure (Some JNull) k =
     Inl (TypeError (''Cannot destructure property '' @ quoted k @ '' of 'req.body' as it is null.''))"
| "destructure (Some (JObj kvs)) k = Inr (map_of kvs k)"
| "destructure (Some v) k = Inr None"

text \<open>\<^verbatim>\<open>Array.prototype.join\<close> on an array of strings.\<close>

fun join :: "string \<Rightarrow> string list \<Rightarrow> string" where
  "join sep [] = []"
| "join sep [x] = x"
| "join sep (x # y # ys) = x @ sep @ join sep (y # ys)"

text \<open>
  The string conversion of a template literal \<^verbatim>\<open>${v}\<close>. An array is converted by
  \<^verbatim>\<open>Array.prototype.join\<close> with a comma, which writes \<^verbatim>\<open>null\<close> and \<^verbatim>\<open>undefined\<close> elements as
  the empty string. A decoded object is \<^verbatim>\<open>[object Object]\<close>, unless it has an own
  property \<^verbatim>\<open>toString\<close>: that property is no function, and then neither it nor
  \<^verbatim>\<open>valueOf\<close> yields a primitive, which is a type error.
\<close>

fun to_string :: "json \<Rightarrow> js_error + string"
  and to_strings :: "json list \<Rightarrow> js_error + string list" where
  "to_string JNull = Inr ''null''"
| "to_string (JBool b) = Inr (if b then ''true'' else ''false'')"
| "to_string (JNum n) = Inr n"
| "to_string (JStr s) = Inr s"
| "to_string (JArr xs) = and_then (to_strings xs) (\<lambda>parts. Inr (join '','' parts))"
| "to_string (JObj kvs) =
     (if map_of kvs ''toString'' \<noteq> None
      then Inl (TypeError ''Cannot convert object to primitive value'')
      else Inr ''[object Object]'')"
| "to_strings [] = Inr []"
| "to_strings (x # xs) =
     and_then (if x = JNull then Inr [] else to_string x)
       (\<lambda>part. and_then (to_strings xs) (\<lambda>parts. Inr (part # parts)))"

fun to_string_opt :: "json option \<Rightarrow> js_error + string" where
  "to_string_opt None = Inr ''undefined''"
| "to_string_opt (Some v) = to_string v"

section \<open>The chat endpoint: conversation policy and prompt assembly\<close>

text \<open>
  Line 113 and the receiver of line 116: \<^verbatim>\<open>const { messages } = req.body\<close>, and
  \<^verbatim>\<open>messages.filter\<close> is callable only on an array.
\<close>

definition messages_array :: "json option \<Rightarrow> js_error + json list" where
  "messages_array req_body =
     and_then (destructure req_body ''messages'')
       (\<lambda>messages. case messages of
            None \<Rightarrow> Inl (TypeError ''Cannot read properties of undefined (reading 'filter')'')
          | Some JNull \<Rightarrow> Inl (TypeError ''Cannot read properties of null (reading 'filter')'')
          | Some (JArr ms) \<Rightarrow> Inr ms
          | Some _ \<Rightarrow> Inl (TypeError ''messages.filter is not a function''))"

text \<open>Line 116: \<^verbatim>\<open>messages.filter((m) => m.role === "user")\<close>.\<close>

fun userMessages :: "json list \<Rightarrow> js_error + json list" where
  "userMessages [] = Inr []"
| "userMessages (m # ms) =
     and_then (get_prop (Some m) ''role'')
       (\<lambda>r. and_then (userMessages ms)
          (\<lambda>us. Inr (if r = Some (JStr ''user'') then m # us else us)))"

text \<open>Line 117: \<^verbatim>\<open>userMessages.length >= 3\<close>.\<close>

definition shouldGenerateSchema :: "json list \<Rightarrow> js_error + bool" where
  "shouldGenerateSchema ms = and_then (userMessages ms) (\<lambda>us. Inr (3 \<le> length us))"

text \<open>Lines 119 to 140: the system instruction, by the decision of line 117.\<close>

definition systemPrompt :: "bool \<Rightarrow> string" where
  "systemPrompt generate =
     (if generate then
        ''You are a helpful MongoDB database design assistant. Based on the conversation so far, generate a complete MongoDB schema.\<newline>\<newline>Generate a MongoDB schema using JSON format showing the structure of documents and collections. Include:\<newline>1. Collection definitions\<newline>2. Sample documents with proper field types\<newline>3. Suggested indexes\<newline>4. Embedding vs referencing recommendations for relationships\<newline>\<newline>Explain your design decisions based on MongoDB best practices and the requirements.\<newline>Format the schema in a code block using triple backticks with json as the language.''
      else
        ''You are a helpful database design assistant. Help the user design their MongoDB database schema by asking relevant questions about their project requirements.\<newline>Focus on understanding:\<newline>- The purpose of the database\<newline>- The main collections needed\<newline>- The document structure for each collection\<newline>- Relationships between collections\<newline>- Any specific indexes or constraints needed\<newline>\<newline>Ask one question at a time and wait for the user's response before proceeding to the next question.'')"

text \<open>Lines 146 to 149: the system turn, then the caller's turns.\<close>

definition combinedMessages :: "string \<Rightarrow> json list \<Rightarrow> json list" where
  "combinedMessages sp ms = JObj [(''role'', JStr ''system''), (''content'', JStr sp)] # ms"

text \<open>Line 153: the template literal \<^verbatim>\<open>`${msg.role}: ${msg.content}`\<close>.\<close>

definition render :: "json \<Rightarrow> js_error + string" where
  "render msg =
     and_then (get_prop (Some msg) ''role'')
       (\<lambda>r. and_then (to_string_opt r)
          (\<lambda>rs. and_then (get_prop (Some msg) ''content'')
             (\<lambda>c. and_then (to_string_opt c)
                (\<lambda>cs. Inr (rs @ '': '' @ cs)))))"

text \<open>Lines 152 to 154: one line per message, joined by newlines.\<close>

definition prompt :: "json list \<Rightarrow> js_error + string" where
  "prompt combined =
     and_then (map_err render combined) (\<lambda>rendered. Inr (join ''\<newline>'' rendered))"

text \<open>Lines 113 to 154: everything the handler computes before it calls the model.\<close>

definition build_prompt :: "json option \<Rightarrow> js_error + string" where
  "build_prompt req_body =
     and_then (messages_array req_body)
       (\<lambda>ms. and_then (shouldGenerateSchema ms)
          (\<lambda>generate. prompt (combinedMessages (systemPrompt generate) ms)))"

text \<open>Lines 113 to 117 alone: the decision between clarifying and generating.\<close>

definition policy :: "json option \<Rightarrow> js_error + bool" where
  "policy req_body = and_then (messages_array req_body) shouldGenerateSchema"

section \<open>The server process and its responses\<close>

text \<open>
  The process-wide state the handlers read: the environment variable
  \<^verbatim>\<open>GEMINI_API_KEY\<close>, the model client \<^verbatim>\<open>genAI\<close> (lines 60 to 71; \<open>None\<close> when it was never
  constructed) and the database handle \<^verbatim>\<open>db\<close> (lines 31 to 57; \<open>None\<close> when the connection
  string is missing or \<^verbatim>\<open>client.connect()\<close> failed at startup).
\<close>

record server =
  GEMINI_API_KEY :: "string option"
  genAI :: "string option"
  db :: "string option"

text \<open>JavaScript truthiness of an environment variable: set and not empty.\<close>

fun truthy :: "string option \<Rightarrow> bool" where
  "truthy None = False"
| "truthy (Some v) = (v \<noteq> [])"

text \<open>
  Lines 60 to 71. The constructor of the client library is a parameter: it returns the
  client (held here as a string) or throws, and the catch of line 68 leaves \<^verbatim>\<open>genAI\<close>
  undefined.
\<close>

definition init_genAI :: "string option \<Rightarrow> (string \<Rightarrow> js_error + string) \<Rightarrow> string option" where
  "init_genAI key construct =
     (case key of
        None \<Rightarrow> None
      | Some k \<Rightarrow>
          if k = [] then None
          else (case construct k of Inl error \<Rightarrow> None | Inr client \<Rightarrow> Some client))"

text \<open>
  A response: the status code and the object given to \<^verbatim>\<open>res.json\<close>, as the list of its
  keys and values. A value of such an object is a JSON value or a \<^verbatim>\<open>Date\<close> (milliseconds
  since the epoch).
\<close>

datatype jsval = Json json | Date nat

record response =
  status :: nat
  body :: "(string \<times> jsval) list"

definition error_json :: "nat \<Rightarrow> string \<Rightarrow> response" where
  "error_json code msg = \<lparr>status = code, body = [(''error'', Json (JStr msg))]\<rparr>"

text \<open>The catch of lines 165 to 170: \<^verbatim>\<open>error.message || "An error occurred ..."\<close>.\<close>

definition chat_failure :: "js_error \<Rightarrow> response" where
  "chat_failure error =
     error_json 500
       (if message error \<noteq> [] then message error
        else ''An error occurred while generating the response'')"

text \<open>
  Lines 96 to 171. The model call of lines 157 to 159 is a parameter
  \<open>generateContent\<close>: given the prompt it returns the generated text or throws.
  (\<^verbatim>\<open>getGenerativeModel\<close> on line 143 only builds a local object and is taken not to
  throw.) The handler's result is its response together with the prompts it handed to
  the model.
\<close>

definition post_chat ::
  "server \<Rightarrow> (string \<Rightarrow> js_error + string) \<Rightarrow> json option \<Rightarrow> response \<times> string list" where
  "post_chat srv generateContent req_body =
     (if \<not> truthy (GEMINI_API_KEY srv) then
        (error_json 500
           ''Gemini API key is missing. Please set the GEMINI_API_KEY environment variable.'', [])
      else if genAI srv = None then
        (error_json 500 ''Gemini client is not initialized. Please check your API key.'', [])
      else
        (case build_prompt req_body of
           Inl error \<Rightarrow> (chat_failure error, [])
         | Inr p \<Rightarrow>
             (case generateContent p of
                Inl error \<Rightarrow> (chat_failure error, [p])
              | Inr text \<Rightarrow>
                  (\<lparr>status = 200,
                    body = [(''content'', Json (JStr text)),
                            (''role'', Json (JStr ''assistant''))]\<rparr>, [p]))))"

text \<open>
  Two model services (or client constructors) for the examples below: one that answers
  every call with the same text, and one that rejects every call.
\<close>

definition answering :: "string \<Rightarrow> string \<Rightarrow> js_error + string" where [simp]:
  "answering reply p = Inr reply"

definition rejecting :: "string \<Rightarrow> string \<Rightarrow> js_error + string" where [simp]:
  "rejecting msg p = Inl (ExternalError msg)"

section \<open>The project store\<close>

text \<open>
  A document of the collection \<^verbatim>\<open>projects\<close> as the gateway writes it: the store's own
  identifier \<^verbatim>\<open>_id\<close> (here \<open>object_id\<close>), the external identifier \<^verbatim>\<open>id\<close> (here
  \<open>project_id\<close>), the four submitted values and the two timestamps.
\<close>

record project =
  object_id :: nat
  project_id :: string
  name :: json
  schema :: json
  schemaType :: json
  conversation :: json
  createdAt :: nat
  updatedAt :: nat

text \<open>
  The database server, as far as the handlers can tell: whether a command sent to it
  succeeds at all (\<open>reachable\<close>), whether the unique index on \<^verbatim>\<open>id\<close> that line 50 asks for
  has been built, the documents of the collection in insertion order, the next
  \<^verbatim>\<open>_id\<close> to hand out, and the commands received so far.
\<close>

datatype command = Ping | FindOne string | InsertOne string | UpdateOne string

record mongo =
  reachable :: bool
  unique_id_index :: bool
  projects :: "project list"
  next_object_id :: nat
  commands :: "command list"

definition received :: "command \<Rightarrow> mongo \<Rightarrow> mongo" where
  "received c m = m\<lparr>commands := commands m @ [c]\<rparr>"

definition unreachable :: js_error where
  "unreachable = ExternalError ''connection to the database server failed''"

text \<open>The first document of the collection whose \<^verbatim>\<open>id\<close> is the given string.\<close>

definition project_with :: "string \<Rightarrow> mongo \<Rightarrow> project option" where
  "project_with i m = find (\<lambda>p. project_id p = i) (projects m)"

text \<open>Line 84: \<^verbatim>\<open>db.command({ ping: 1 })\<close>, answered by the document \<^verbatim>\<open>{ ok: 1 }\<close>.\<close>

definition ping :: "mongo \<Rightarrow> (js_error + json) \<times> mongo" where
  "ping m =
     (if reachable m then Inr (JObj [(''ok'', JNum ''1'')]) else Inl unreachable,
      received Ping m)"

text \<open>Line 181: \<^verbatim>\<open>findOne({ id })\<close>.\<close>

definition findOne :: "string \<Rightarrow> mongo \<Rightarrow> (js_error + project option) \<times> mongo" where
  "findOne i m =
     (if reachable m then Inr (project_with i m) else Inl unreachable,
      received (FindOne i) m)"

text \<open>
  The driver writes an \<^verbatim>\<open>undefined\<close> field as \<^verbatim>\<open>null\<close>; every JSON value is stored and read
  back as it is.
\<close>

fun bson :: "json option \<Rightarrow> json" where
  "bson None = JNull"
| "bson (Some v) = v"

text \<open>
  Line 223: \<^verbatim>\<open>insertOne(project)\<close>. The driver adds the \<^verbatim>\<open>_id\<close>; the unique index, where it
  exists, refuses a second document with the same \<^verbatim>\<open>id\<close>.
\<close>

definition insertOne ::
  "string \<Rightarrow> json option \<Rightarrow> json option \<Rightarrow> json option \<Rightarrow> json option \<Rightarrow> nat \<Rightarrow> nat \<Rightarrow>
   mongo \<Rightarrow> (js_error + nat) \<times> mongo" where
  "insertOne i nm sch sty conv created updated m =
     (if \<not> reachable m then (Inl unreachable, received (InsertOne i) m)
      else if unique_id_index m \<and> project_with i m \<noteq> None then
        (Inl (ExternalError ''E11000 duplicate key error''), received (InsertOne i) m)
      else
        (Inr (next_object_id m),
         received (InsertOne i)
           (m\<lparr>projects := projects m @
                 [\<lparr>object_id = next_object_id m, project_id = i, name = bson nm,
                   schema = bson sch, schemaType = bson sty, conversation = bson conv,
                   createdAt = created, updatedAt = updated\<rparr>],
              next_object_id := Suc (next_object_id m)\<rparr>)))"

text \<open>
  Lines 243 to 252: \<^verbatim>\<open>updateOne({ id }, { $set: { name, schema, updatedAt } })\<close> changes
  the first matching document and answers with the number of documents matched.
\<close>

fun set_first :: "string \<Rightarrow> json \<Rightarrow> json \<Rightarrow> nat \<Rightarrow> project list \<Rightarrow> project list" where
  "set_first i nm sch updated [] = []"
| "set_first i nm sch updated (p # ps) =
     (if project_id p = i then p\<lparr>name := nm, schema := sch, updatedAt := updated\<rparr> # ps
      else p # set_first i nm sch updated ps)"

definition updateOne ::
  "string \<Rightarrow> json option \<Rightarrow> json option \<Rightarrow> nat \<Rightarrow> mongo \<Rightarrow> (js_error + nat) \<times> mongo" where
  "updateOne i nm sch updated m =
     (if \<not> reachable m then (Inl unreachable, received (UpdateOne i) m)
      else
        (Inr (if project_with i m = None then 0 else 1),
         received (UpdateOne i)
           (m\<lparr>projects := set_first i (bson nm) (bson sch) updated (projects m)\<rparr>)))"

text \<open>Lines 174 to 200: read a project by its \<^verbatim>\<open>id\<close>.\<close>

definition get_project :: "server \<Rightarrow> string \<Rightarrow> mongo \<Rightarrow> response \<times> mongo" where
  "get_project srv i m =
     (if db srv = None then (error_json 500 ''Database connection not available'', m)
      else
        (case findOne i m of
           (Inl error, m') \<Rightarrow> (error_json 500 ''Failed to fetch project'', m')
         | (Inr None, m') \<Rightarrow> (error_json 404 ''Project not found'', m')
         | (Inr (Some p), m') \<Rightarrow>
             (\<lparr>status = 200,
               body = [(''id'', Json (JStr (project_id p))),
                       (''name'', Json (name p)),
                       (''schema'', Json (schema p)),
                       (''schemaType'', Json (schemaType p)),
                       (''conversation'', Json (conversation p)),
                       (''createdAt'', Date (createdAt p)),
                       (''updatedAt'', Date (updatedAt p))]\<rparr>, m')))"

text \<open>
  Lines 203 to 230: create a project. The identifier \<^verbatim>\<open>nanoid()\<close> mints and the clock
  reading \<^verbatim>\<open>new Date()\<close> are parameters.
\<close>

definition post_project ::
  "server \<Rightarrow> string \<Rightarrow> nat \<Rightarrow> json option \<Rightarrow> mongo \<Rightarrow> response \<times> mongo" where
  "post_project srv nanoid now req_body m =
     (if db srv = None then (error_json 500 ''Database connection not available'', m)
      else
        (case and_then (destructure req_body ''name'')
                (\<lambda>nm. and_then (destructure req_body ''schema'')
                   (\<lambda>sch. and_then (destructure req_body ''schemaType'')
                      (\<lambda>sty. and_then (destructure req_body ''conversation'')
                         (\<lambda>conv. Inr (nm, sch, sty, conv))))) of
           Inl error \<Rightarrow> (error_json 500 ''Failed to create project'', m)
         | Inr (nm, sch, sty, conv) \<Rightarrow>
             (case insertOne nanoid nm sch sty conv now now m of
                (Inl error, m') \<Rightarrow> (error_json 500 ''Failed to create project'', m')
              | (Inr inserted, m') \<Rightarrow>
                  (\<lparr>status = 201, body = [(''id'', Json (JStr nanoid))]\<rparr>, m'))))"

text \<open>Lines 233 to 263: update the name and the schema of a project.\<close>

definition put_project ::
  "server \<Rightarrow> nat \<Rightarrow> string \<Rightarrow> json option \<Rightarrow> mongo \<Rightarrow> response \<times> mongo" where
  "put_project srv now i req_body m =
     (if db srv = None then (error_json 500 ''Database connection not available'', m)
      else
        (case and_then (destructure req_body ''name'')
                (\<lambda>nm. and_then (destructure req_body ''schema'')
                   (\<lambda>sch. Inr (nm, sch))) of
           Inl error \<Rightarrow> (error_json 500 ''Failed to update project'', m)
         | Inr (nm, sch) \<Rightarrow>
             (case updateOne i nm sch now m of
                (Inl error, m') \<Rightarrow> (error_json 500 ''Failed to update project'', m')
              | (Inr matchedCount, m') \<Rightarrow>
                  if matchedCount = 0 then (error_json 404 ''Project not found'', m')
                  else (\<lparr>status = 200, body = [(''success'', Json (JBool True))]\<rparr>, m'))))"

text \<open>Lines 74 to 92: the status endpoint.\<close>

definition get_status :: "server \<Rightarrow> mongo \<Rightarrow> response \<times> mongo" where
  "get_status srv m =
     (let (database, m') =
            (if db srv \<noteq> None then
               (case ping m of
                  (Inl error, m') \<Rightarrow> (False, m')
                | (Inr dbResult, m') \<Rightarrow> (True, m'))
             else (False, m))
      in (\<lparr>status = 200,
           body = [(''server'', Json (JBool True)),
                   (''gemini'', Json (JBool (truthy (GEMINI_API_KEY srv)))),
                   (''database'', Json (JBool database))]\<rparr>, m'))"

text \<open>
  What happens to the database over time: the calls of the four endpoints that reach
  it (with the values \<^verbatim>\<open>nanoid()\<close> and \<^verbatim>\<open>new Date()\<close> gave them), and the server
  going away and coming back. No endpoint deletes a project. \<open>mints i e\<close> tells
  whether the event is a create call that minted the identifier \<open>i\<close>.
\<close>

datatype event =
    Status
  | Read string
  | Create string nat "json option"
  | Update nat string "json option"
  | Outage
  | Recovery

fun after :: "server \<Rightarrow> event \<Rightarrow> mongo \<Rightarrow> mongo" where
  "after srv Status m = snd (get_status srv m)"
| "after srv (Read i) m = snd (get_project srv i m)"
| "after srv (Create nanoid now req_body) m = snd (post_project srv nanoid now req_body m)"
| "after srv (Update now i req_body) m = snd (put_project srv now i req_body m)"
| "after srv Outage m = m\<lparr>reachable := False\<rparr>"
| "after srv Recovery m = m\<lparr>reachable := True\<rparr>"

fun serve :: "server \<Rightarrow> event list \<Rightarrow> mongo \<Rightarrow> mongo" where
  "serve srv [] m = m"
| "serve srv (e # es) m = serve srv es (after srv e m)"

fun mints :: "string \<Rightarrow> event \<Rightarrow> bool" where
  "mints i (Create nanoid now req_body) = (nanoid = i)"
| "mints i e = False"

section \<open>Chat turns and the reading of a flattened prompt\<close>

text \<open>
  A chat turn of the data model: a role and a text. A decoded JSON value represents a
  turn when reading its \<^verbatim>\<open>role\<close> and \<^verbatim>\<open>content\<close> gives the two strings (whatever the order
  of its keys and whatever else it holds), and a request body carries a sequence of
  turns when its \<^verbatim>\<open>messages\<close> is an array of values that represent them, in order.
\<close>

record turn =
  role :: string
  content :: string

definition represents :: "json \<Rightarrow> turn \<Rightarrow> bool" where
  "represents m t =
     (get_prop (Some m) ''role'' = Inr (Some (JStr (role t))) \<and>
      get_prop (Some m) ''content'' = Inr (Some (JStr (content t))))"

definition carries :: "json option \<Rightarrow> turn list \<Rightarrow> bool" where
  "carries req_body ts =
     (case messages_array req_body of
        Inl error \<Rightarrow> False
      | Inr ms \<Rightarrow> list_all2 represents ms ts)"

text \<open>The plain encoding of a turn, and the request body \<^verbatim>\<open>{ messages: [...] }\<close>.\<close>

definition turn_json :: "turn \<Rightarrow> json" where
  "turn_json t = JObj [(''role'', JStr (role t)), (''content'', JStr (content t))]"

definition chat_request :: "turn list \<Rightarrow> json option" where
  "chat_request ts = Some (JObj [(''messages'', JArr (map turn_json ts))])"

text \<open>
  The source has no inverse of the flattening; the following reading of a prompt is
  written from the specification's words, "re-splitting on the role markers". A role
  marker is a newline, one of the three roles of the data model, a colon and a space.
  \<open>marker_at s\<close> tells whether \<open>s\<close> starts with a marker, and gives the role and the text
  after the marker.
\<close>

definition turn_roles :: "string list" where
  "turn_roles = [''user'', ''assistant'', ''system'']"

definition marker_at :: "string \<Rightarrow> (string \<times> string) option" where
  "marker_at s =
     (case s of
        [] \<Rightarrow> None
      | c # rest \<Rightarrow>
          if c \<noteq> CHR 0x0A then None
          else map_option (\<lambda>r. (r, drop (length r + 2) rest))
                 (find (\<lambda>r. take (length r + 2) rest = r @ '': '') turn_roles))"

text \<open>
  The prompt is read from its end: the text up to the next marker is pending, and a
  marker in front of it closes a turn. What is left pending at the start of the prompt
  is the text before the first marker, which is the prepended system instruction.
\<close>

fun split_turns :: "string \<Rightarrow> string \<times> turn list" where
  "split_turns [] = ([], [])"
| "split_turns (c # cs) =
     (let (pending, ts) = split_turns cs
      in case marker_at (c # pending) of
           None \<Rightarrow> (c # pending, ts)
         | Some (r, text) \<Rightarrow> ([], \<lparr>role = r, content = text\<rparr> # ts))"

definition resplit :: "string \<Rightarrow> turn list" where
  "resplit p = snd (split_turns p)"

text \<open>A text without a role marker anywhere in it.\<close>

fun no_marker :: "string \<Rightarrow> bool" where
  "no_marker [] = True"
| "no_marker (c # cs) = (marker_at (c # cs) = None \<and> no_marker cs)"

section \<open>Properties of the conversation policy and of prompt assembly\<close>

lemma and_then_Inr [simp]: "and_then (Inr v) f = f v"
  by (simp add: and_then_def)

lemma and_then_Inl [simp]: "and_then (Inl e) f = Inl e"
  by (simp add: and_then_def)

lemma represents_turn_json: "represents (turn_json t) t"
  by (simp add: represents_def turn_json_def)

lemma carries_chat_request: "carries (chat_request ts) ts"
  by (simp add: carries_def chat_request_def messages_array_def
      list_all2_map1 represents_turn_json list_all2_same)

lemma carriesD:
  "carries req_body ts \<Longrightarrow> \<exists>ms. messages_array req_body = Inr ms \<and> list_all2 represents ms ts"
  by (auto simp: carries_def split: sum.splits)

lemma userMessages_represents:
  "list_all2 represents ms ts \<Longrightarrow>
   \<exists>us. userMessages ms = Inr us \<and> length us = length (filter (\<lambda>t. role t = ''user'') ts)"
proof (induction rule: list_all2_induct)
  case Nil
  then show ?case by simp
next
  case (Cons m ms t ts)
  then obtain us where us: "userMessages ms = Inr us"
    "length us = length (filter (\<lambda>t. role t = ''user'') ts)" by blast
  from Cons.hyps(1) have r: "get_prop (Some m) ''role'' = Inr (Some (JStr (role t)))"
    by (simp add: represents_def)
  show ?case using us r by simp
qed

lemma shouldGenerateSchema_represents:
  assumes "list_all2 represents ms ts"
  shows "shouldGenerateSchema ms = Inr (3 \<le> length (filter (\<lambda>t. role t = ''user'') ts))"
  using userMessages_represents [OF assms] by (auto simp: shouldGenerateSchema_def)

lemma render_represents:
  "represents m t \<Longrightarrow> render m = Inr (role t @ '': '' @ content t)"
  by (simp add: represents_def render_def)

lemma map_err_render:
  "list_all2 represents ms ts \<Longrightarrow>
   map_err render ms = Inr (map (\<lambda>t. role t @ '': '' @ content t) ts)"
  by (induction rule: list_all2_induct) (simp_all add: render_represents)

lemma join_Cons: "join sep (x # xs) = x @ concat (map (\<lambda>y. sep @ y) xs)"
  by (induction xs arbitrary: x) simp_all

lemma render_system:
  "render (JObj [(''role'', JStr ''system''), (''content'', JStr sp)]) = Inr (''system: '' @ sp)"
  by (simp add: render_def)

lemma prompt_represents:
  assumes "list_all2 represents ms ts"
  shows "prompt (combinedMessages sp ms) =
         Inr (''system: '' @ sp @
              concat (map (\<lambda>t. ''\<newline>'' @ role t @ '': '' @ content t) ts))"
  using map_err_render [OF assms]
  by (simp add: prompt_def combinedMessages_def render_system join_Cons comp_def del: join.simps)

lemma build_prompt_carries:
  assumes "carries req_body ts"
  shows "build_prompt req_body =
         Inr (''system: '' @ systemPrompt (3 \<le> length (filter (\<lambda>t. role t = ''user'') ts)) @
              concat (map (\<lambda>t. ''\<newline>'' @ role t @ '': '' @ content t) ts))"
proof -
  from carriesD [OF assms] obtain ms where ms: "messages_array req_body = Inr ms"
    "list_all2 represents ms ts" by blast
  show ?thesis
    by (simp add: build_prompt_def ms(1) shouldGenerateSchema_represents [OF ms(2)]
        prompt_represents [OF ms(2)])
qed

lemma systemPrompt_distinct: "systemPrompt True \<noteq> systemPrompt False"
  by (simp add: systemPrompt_def)

text \<open>
  Claim C1. For every sequence of chat turns that a request carries, the decision of
  line 117 is to generate exactly when at least three of the turns have the role
  \<^verbatim>\<open>user\<close>, and to clarify otherwise; the prompt starts with the system instruction of
  that decision, and the two instructions differ. So no turns and no user turns give
  the clarifying instruction, and three user turns are the first to give the
  generating one.
\<close>

theorem policy_threshold:
  assumes "carries req_body ts"
  shows "policy req_body = Inr (3 \<le> length (filter (\<lambda>t. role t = ''user'') ts)) \<and>
         (\<exists>rest. build_prompt req_body =
            Inr (''system: '' @
                 systemPrompt (3 \<le> length (filter (\<lambda>t. role t = ''user'') ts)) @ rest)) \<and>
         systemPrompt True \<noteq> systemPrompt False"
proof -
  from carriesD [OF assms] obtain ms where ms: "messages_array req_body = Inr ms"
    "list_all2 represents ms ts" by blast
  have "policy req_body = Inr (3 \<le> length (filter (\<lambda>t. role t = ''user'') ts))"
    by (simp add: policy_def ms(1) shouldGenerateSchema_represents [OF ms(2)])
  moreover have "\<exists>rest. build_prompt req_body =
      Inr (''system: '' @
           systemPrompt (3 \<le> length (filter (\<lambda>t. role t = ''user'') ts)) @ rest)"
    using build_prompt_carries [OF assms] by blast
  ultimately show ?thesis using systemPrompt_distinct by blast
qed

text \<open>
  The threshold at concrete conversations: two user turns (with an assistant turn
  between them) clarify, three user turns generate, and no turns clarify.
\<close>

theorem policy_threshold_witness:
  "carries (chat_request [\<lparr>role = ''user'', content = ''I need a blog''\<rparr>,
                          \<lparr>role = ''assistant'', content = ''Who writes the posts?''\<rparr>,
                          \<lparr>role = ''user'', content = ''Several authors''\<rparr>])
     [\<lparr>role = ''user'', content = ''I need a blog''\<rparr>,
      \<lparr>role = ''assistant'', content = ''Who writes the posts?''\<rparr>,
      \<lparr>role = ''user'', content = ''Several authors''\<rparr>] \<and>
   policy (chat_request [\<lparr>role = ''user'', content = ''I need a blog''\<rparr>,
                         \<lparr>role = ''assistant'', content = ''Who writes the posts?''\<rparr>,
                         \<lparr>role = ''user'', content = ''Several authors''\<rparr>]) = Inr False \<and>
   policy (chat_request [\<lparr>role = ''user'', content = ''I need a blog''\<rparr>,
                         \<lparr>role = ''user'', content = ''Several authors''\<rparr>,
                         \<lparr>role = ''user'', content = ''With comments''\<rparr>]) = Inr True \<and>
   policy (chat_request []) = Inr False"
proof -
  let ?two = "[\<lparr>role = ''user'', content = ''I need a blog''\<rparr>,
               \<lparr>role = ''assistant'', content = ''Who writes the posts?''\<rparr>,
               \<lparr>role = ''user'', content = ''Several authors''\<rparr>]"
  let ?three = "[\<lparr>role = ''user'', content = ''I need a blog''\<rparr>,
                 \<lparr>role = ''user'', content = ''Several authors''\<rparr>,
                 \<lparr>role = ''user'', content = ''With comments''\<rparr>]"
  have c2: "carries (chat_request ?two) ?two" by (rule carries_chat_request)
  have c3: "carries (chat_request ?three) ?three" by (rule carries_chat_request)
  have c0: "carries (chat_request []) []" by (rule carries_chat_request)
  have "policy (chat_request ?two) = Inr False"
    using policy_threshold [OF c2] by simp
  moreover have "policy (chat_request ?three) = Inr True"
    using policy_threshold [OF c3] by simp
  moreover have "policy (chat_request []) = Inr False"
    using policy_threshold [OF c0] by simp
  ultimately show ?thesis using c2 by blast
qed

lemma marker_at_plain: "c \<noteq> CHR 0x0A \<Longrightarrow> marker_at (c # s) = None"
  by (simp add: marker_at_def)

lemma marker_at_role:
  "r \<in> set turn_roles \<Longrightarrow> marker_at (CHR 0x0A # r @ '': '' @ text) = Some (r, text)"
  by (auto simp: marker_at_def turn_roles_def)

lemma marker_at_other:
  "x \<noteq> CHR ''u'' \<Longrightarrow> x \<noteq> CHR ''a'' \<Longrightarrow> x \<noteq> CHR ''s'' \<Longrightarrow>
   marker_at (CHR 0x0A # x # s) = None"
  by (simp add: marker_at_def turn_roles_def)

lemma marker_at_end: "marker_at [c] = None"
  by (simp add: marker_at_def turn_roles_def)

lemma split_turns_plain:
  "list_all (\<lambda>c. c \<noteq> CHR 0x0A) p \<Longrightarrow>
   split_turns (p @ z) = (p @ fst (split_turns z), snd (split_turns z))"
  by (induction p) (simp_all add: marker_at_plain split: prod.splits)

lemma split_turns_content:
  "no_marker c \<Longrightarrow> fst (split_turns z) = [] \<Longrightarrow> split_turns (c @ z) = (c, snd (split_turns z))"
proof (induction c)
  case Nil
  then show ?case by (cases "split_turns z") simp
next
  case (Cons a c)
  then show ?case by simp
qed

lemma role_plain: "r \<in> set turn_roles \<Longrightarrow> list_all (\<lambda>c. c \<noteq> CHR 0x0A) (r @ '': '')"
  by (auto simp: turn_roles_def)

lemma split_turns_chunk:
  assumes "r \<in> set turn_roles" "no_marker c" "fst (split_turns z) = []"
  shows "split_turns (CHR 0x0A # r @ '': '' @ c @ z) =
         ([], \<lparr>role = r, content = c\<rparr> # snd (split_turns z))"
proof -
  have "split_turns ((r @ '': '') @ (c @ z)) = ((r @ '': '') @ c, snd (split_turns z))"
    using split_turns_plain [OF role_plain [OF assms(1)], of "c @ z"]
      split_turns_content [OF assms(2,3)] by simp
  then show ?thesis
    using marker_at_role [OF assms(1), of c] by simp
qed

lemma split_turns_chunks:
  "list_all (\<lambda>t. role t \<in> set turn_roles \<and> no_marker (content t)) ts \<Longrightarrow>
   split_turns (concat (map (\<lambda>t. ''\<newline>'' @ role t @ '': '' @ content t) ts)) = ([], ts)"
proof (induction ts)
  case Nil
  then show ?case by simp
next
  case (Cons t ts)
  then have ih: "split_turns (concat (map (\<lambda>t. ''\<newline>'' @ role t @ '': '' @ content t) ts)) = ([], ts)"
    and r: "role t \<in> set turn_roles" and c: "no_marker (content t)" by simp_all
  show ?case
    using split_turns_chunk [OF r c,
        of "concat (map (\<lambda>t. ''\<newline>'' @ role t @ '': '' @ content t) ts)"] ih
    by simp
qed

lemma split_turns_flat:
  assumes "no_marker lead"
    and "list_all (\<lambda>t. role t \<in> set turn_roles \<and> no_marker (content t)) ts"
  shows "split_turns (lead @ concat (map (\<lambda>t. ''\<newline>'' @ role t @ '': '' @ content t) ts)) =
         (lead, ts)"
  using split_turns_content [OF assms(1),
      of "concat (map (\<lambda>t. ''\<newline>'' @ role t @ '': '' @ content t) ts)"]
    split_turns_chunks [OF assms(2)] by simp

lemma no_marker_system: "no_marker (''system: '' @ systemPrompt g)"
  by (cases g) (simp_all add: systemPrompt_def marker_at_plain marker_at_other marker_at_end)

lemma resplit_build_prompt:
  assumes "carries req_body ts"
    and "list_all (\<lambda>t. role t \<in> set turn_roles \<and> no_marker (content t)) ts"
  shows "map_sum id resplit (build_prompt req_body) = Inr ts"
  using split_turns_flat [OF no_marker_system assms(2)]
  by (simp add: build_prompt_carries [OF assms(1)] resplit_def)

text \<open>
  The flattening is not injective: a user turn whose text holds a line that starts
  with a role marker gives the same prompt as two user turns, so no reading of the
  prompt recovers every turn sequence, and the reading by role markers returns the two
  turns for the one.
\<close>

theorem resplit_counterexample:
  "build_prompt (chat_request [\<lparr>role = ''user'', content = ''a\<newline>user: b''\<rparr>]) =
   build_prompt (chat_request [\<lparr>role = ''user'', content = ''a''\<rparr>,
                               \<lparr>role = ''user'', content = ''b''\<rparr>]) \<and>
   [\<lparr>role = ''user'', content = ''a\<newline>user: b''\<rparr>] \<noteq>
   [\<lparr>role = ''user'', content = ''a''\<rparr>, \<lparr>role = ''user'', content = ''b''\<rparr>] \<and>
   map_sum id resplit
     (build_prompt (chat_request [\<lparr>role = ''user'', content = ''a\<newline>user: b''\<rparr>])) =
   Inr [\<lparr>role = ''user'', content = ''a''\<rparr>, \<lparr>role = ''user'', content = ''b''\<rparr>]"
proof -
  let ?one = "[\<lparr>role = ''user'', content = ''a\<newline>user: b''\<rparr>]"
  let ?two = "[\<lparr>role = ''user'', content = ''a''\<rparr>, \<lparr>role = ''user'', content = ''b''\<rparr>]"
  have same: "build_prompt (chat_request ?one) = build_prompt (chat_request ?two)"
    by (simp add: build_prompt_carries [OF carries_chat_request])
  have ok: "list_all (\<lambda>t. role t \<in> set turn_roles \<and> no_marker (content t)) ?two"
    by (simp add: turn_roles_def marker_at_end)
  have "map_sum id resplit (build_prompt (chat_request ?two)) = Inr ?two"
    by (rule resplit_build_prompt [OF carries_chat_request ok])
  with same show ?thesis by simp
qed

text \<open>
  Claim C2, as amended. For every sequence of chat turns that a request carries, the
  prompt is the line \<^verbatim>\<open>system: <instruction>\<close> followed, for each turn in order, by a
  newline and \<^verbatim>\<open><role>: <content>\<close>, with nothing after the last turn. If every role is
  one of user, assistant and system and no content contains a role marker, re-splitting
  the prompt on the role markers gives back exactly the turns of the request, without
  the system instruction. (Contents may have several lines.)
\<close>

theorem prompt_assembly:
  assumes "carries req_body ts"
  shows "build_prompt req_body =
           Inr (''system: '' @
                systemPrompt (3 \<le> length (filter (\<lambda>t. role t = ''user'') ts)) @
                concat (map (\<lambda>t. ''\<newline>'' @ role t @ '': '' @ content t) ts)) \<and>
         (list_all (\<lambda>t. role t \<in> set turn_roles \<and> no_marker (content t)) ts \<longrightarrow>
            map_sum id resplit (build_prompt req_body) = Inr ts)"
  using build_prompt_carries [OF assms] resplit_build_prompt [OF assms] by blast

text \<open>
  A conversation whose assistant turn has two lines, the second of which holds
  \<^verbatim>\<open>user: \<close> in its middle: it is flattened as stated and read back unchanged.
\<close>

theorem prompt_assembly_witness:
  "carries (chat_request [\<lparr>role = ''user'', content = ''I need a blog''\<rparr>,
                          \<lparr>role = ''assistant'', content = ''Who writes?\<newline>One user: or many?''\<rparr>])
     [\<lparr>role = ''user'', content = ''I need a blog''\<rparr>,
      \<lparr>role = ''assistant'', content = ''Who writes?\<newline>One user: or many?''\<rparr>] \<and>
   list_all (\<lambda>t. role t \<in> set turn_roles \<and> no_marker (content t))
     [\<lparr>role = ''user'', content = ''I need a blog''\<rparr>,
      \<lparr>role = ''assistant'', content = ''Who writes?\<newline>One user: or many?''\<rparr>] \<and>
   build_prompt (chat_request [\<lparr>role = ''user'', content = ''I need a blog''\<rparr>,
                               \<lparr>role = ''assistant'', content = ''Who writes?\<newline>One user: or many?''\<rparr>]) =
     Inr (''system: '' @ systemPrompt False @
          ''\<newline>user: I need a blog\<newline>assistant: Who writes?\<newline>One user: or many?'') \<and>
   map_sum id resplit
     (build_prompt (chat_request [\<lparr>role = ''user'', content = ''I need a blog''\<rparr>,
                                  \<lparr>role = ''assistant'', content = ''Who writes?\<newline>One user: or many?''\<rparr>])) =
     Inr [\<lparr>role = ''user'', content = ''I need a blog''\<rparr>,
          \<lparr>role = ''assistant'', content = ''Who writes?\<newline>One user: or many?''\<rparr>]"
proof -
  let ?ts = "[\<lparr>role = ''user'', content = ''I need a blog''\<rparr>,
              \<lparr>role = ''assistant'', content = ''Who writes?\<newline>One user: or many?''\<rparr>]"
  have c: "carries (chat_request ?ts) ?ts" by (rule carries_chat_request)
  have ok: "list_all (\<lambda>t. role t \<in> set turn_roles \<and> no_marker (content t)) ?ts"
    by (simp add: turn_roles_def marker_at_plain marker_at_other marker_at_end)
  note pa = prompt_assembly [OF c]
  from pa ok have r: "map_sum id resplit (build_prompt (chat_request ?ts)) = Inr ?ts"
    by blast
  from pa have "build_prompt (chat_request ?ts) =
      Inr (''system: '' @ systemPrompt (3 \<le> length (filter (\<lambda>t. role t = ''user'') ?ts)) @
           concat (map (\<lambda>t. ''\<newline>'' @ role t @ '': '' @ content t) ?ts))"
    by (rule conjunct1)
  then have b: "build_prompt (chat_request ?ts) =
      Inr (''system: '' @ systemPrompt False @
           ''\<newline>user: I need a blog\<newline>assistant: Who writes?\<newline>One user: or many?'')"
    by simp
  from c ok b r show ?thesis by blast
qed

lemma status_error_json [simp]: "status (error_json code msg) = code"
  by (simp add: error_json_def)

lemma body_error_json [simp]: "body (error_json code msg) = [(''error'', Json (JStr msg))]"
  by (simp add: error_json_def)

lemma status_chat_failure [simp]: "status (chat_failure error) = 500"
  by (simp add: chat_failure_def)

text \<open>
  Claim C3. Every chat call answered with status 200 has built a prompt, the model has
  returned a text for that prompt, and the response object is exactly
  \<^verbatim>\<open>{ content: <that text>, role: "assistant" }\<close>: the text is passed on unchanged.
\<close>

theorem chat_success_verbatim:
  assumes "status (fst (post_chat srv generateContent req_body)) = 200"
  shows "\<exists>p text. build_prompt req_body = Inr p \<and> generateContent p = Inr text \<and>
           post_chat srv generateContent req_body =
             (\<lparr>status = 200,
               body = [(''content'', Json (JStr text)),
                       (''role'', Json (JStr ''assistant''))]\<rparr>, [p])"
  using assms by (auto simp: post_chat_def split: if_splits sum.splits)

text \<open>
  A model text with a double space, newlines and a trailing newline arrives as it is.
\<close>

theorem chat_success_verbatim_witness:
  "status (fst (post_chat \<lparr>GEMINI_API_KEY = Some ''key'', genAI = Some ''key'', db = None\<rparr>
                  (answering ''Here is  the schema:\<newline>{ posts: [] }\<newline>'')
                  (chat_request [\<lparr>role = ''user'', content = ''I need a blog''\<rparr>]))) = 200 \<and>
   fst (post_chat \<lparr>GEMINI_API_KEY = Some ''key'', genAI = Some ''key'', db = None\<rparr>
          (answering ''Here is  the schema:\<newline>{ posts: [] }\<newline>'')
          (chat_request [\<lparr>role = ''user'', content = ''I need a blog''\<rparr>])) =
     \<lparr>status = 200,
      body = [(''content'', Json (JStr ''Here is  the schema:\<newline>{ posts: [] }\<newline>'')),
              (''role'', Json (JStr ''assistant''))]\<rparr>"
proof -
  let ?srv = "\<lparr>GEMINI_API_KEY = Some ''key'', genAI = Some ''key'', db = None\<rparr>"
  let ?gen = "answering ''Here is  the schema:\<newline>{ posts: [] }\<newline>''"
  let ?req = "chat_request [\<lparr>role = ''user'', content = ''I need a blog''\<rparr>]"
  have ok: "status (fst (post_chat ?srv ?gen ?req)) = 200"
    by (simp add: post_chat_def build_prompt_carries [OF carries_chat_request])
  from chat_success_verbatim [OF ok] obtain p reply where
    "?gen p = Inr reply" and
    "post_chat ?srv ?gen ?req =
       (\<lparr>status = 200,
         body = [(''content'', Json (JStr reply)), (''role'', Json (JStr ''assistant''))]\<rparr>, [p])"
    by blast
  then have "fst (post_chat ?srv ?gen ?req) =
     \<lparr>status = 200,
      body = [(''content'', Json (JStr ''Here is  the schema:\<newline>{ posts: [] }\<newline>'')),
              (''role'', Json (JStr ''assistant''))]\<rparr>"
    by simp
  with ok show ?thesis by blast
qed

lemma messages_array_cong:
  "destructure b1 ''messages'' = destructure b2 ''messages'' \<Longrightarrow>
   messages_array b1 = messages_array b2"
  by (simp add: messages_array_def)

text \<open>
  Claim C9. The decision and the prompt are functions of the \<^verbatim>\<open>messages\<close> of the request
  alone: two requests with the same \<^verbatim>\<open>messages\<close> get the same decision and the same
  prompt, and whatever the states of the two server processes (both with a key and a
  client) and whatever the model answers, the prompts handed to the model are the same.
\<close>

theorem chat_deterministic:
  assumes "destructure b1 ''messages'' = destructure b2 ''messages''"
  shows "policy b1 = policy b2 \<and> build_prompt b1 = build_prompt b2 \<and>
         (truthy (GEMINI_API_KEY s1) \<and> genAI s1 \<noteq> None \<and>
          truthy (GEMINI_API_KEY s2) \<and> genAI s2 \<noteq> None \<longrightarrow>
            snd (post_chat s1 g1 b1) = snd (post_chat s2 g2 b2))"
proof -
  have b: "build_prompt b1 = build_prompt b2"
    by (simp add: build_prompt_def messages_array_cong [OF assms])
  have p: "policy b1 = policy b2"
    by (simp add: policy_def messages_array_cong [OF assms])
  have "snd (post_chat s1 g1 b1) = snd (post_chat s2 g2 b2)"
    if "truthy (GEMINI_API_KEY s1)" "genAI s1 \<noteq> None"
       "truthy (GEMINI_API_KEY s2)" "genAI s2 \<noteq> None"
    using that b by (auto simp: post_chat_def split: sum.splits)
  with b p show ?thesis by blast
qed

lemma messages_array_fails:
  assumes "\<forall>ms. destructure req_body ''messages'' \<noteq> Inr (Some (JArr ms))"
  shows "\<exists>msg. msg \<noteq> [] \<and> messages_array req_body = Inl (TypeError msg)"
proof (cases req_body)
  case None
  then show ?thesis by (simp add: messages_array_def)
next
  case (Some v)
  with assms show ?thesis
    by (cases v) (auto simp: messages_array_def split: option.splits json.splits)
qed

text \<open>
  Two requests with the same turns, one with a further key in its body, to two
  differently configured processes, one of whose model calls fails.
\<close>

theorem chat_deterministic_witness:
  "destructure (Some (JObj [(''session'', JNum ''7''),
                            (''messages'', JArr [turn_json \<lparr>role = ''user'', content = ''I need a blog''\<rparr>])]))
     ''messages'' =
   destructure (chat_request [\<lparr>role = ''user'', content = ''I need a blog''\<rparr>]) ''messages'' \<and>
   policy (Some (JObj [(''session'', JNum ''7''),
                       (''messages'', JArr [turn_json \<lparr>role = ''user'', content = ''I need a blog''\<rparr>])])) =
   policy (chat_request [\<lparr>role = ''user'', content = ''I need a blog''\<rparr>]) \<and>
   build_prompt (Some (JObj [(''session'', JNum ''7''),
                             (''messages'', JArr [turn_json \<lparr>role = ''user'', content = ''I need a blog''\<rparr>])])) =
   build_prompt (chat_request [\<lparr>role = ''user'', content = ''I need a blog''\<rparr>]) \<and>
   snd (post_chat \<lparr>GEMINI_API_KEY = Some ''key one'', genAI = Some ''key one'', db = None\<rparr>
          (answering ''What is the blog about?'')
          (Some (JObj [(''session'', JNum ''7''),
                       (''messages'', JArr [turn_json \<lparr>role = ''user'', content = ''I need a blog''\<rparr>])]))) =
   snd (post_chat \<lparr>GEMINI_API_KEY = Some ''key two'', genAI = Some ''key two'', db = Some ''schema_designer''\<rparr>
          (rejecting ''quota exceeded'')
          (chat_request [\<lparr>role = ''user'', content = ''I need a blog''\<rparr>]))"
proof -
  let ?b1 = "Some (JObj [(''session'', JNum ''7''),
                         (''messages'', JArr [turn_json \<lparr>role = ''user'', content = ''I need a blog''\<rparr>])])"
  let ?b2 = "chat_request [\<lparr>role = ''user'', content = ''I need a blog''\<rparr>]"
  have same: "destructure ?b1 ''messages'' = destructure ?b2 ''messages''"
    by (simp add: chat_request_def)
  show ?thesis
    using same
      chat_deterministic [OF same,
        of "\<lparr>GEMINI_API_KEY = Some ''key one'', genAI = Some ''key one'', db = None\<rparr>"
           "\<lparr>GEMINI_API_KEY = Some ''key two'', genAI = Some ''key two'', db = Some ''schema_designer''\<rparr>"
           "answering ''What is the blog about?''"
           "rejecting ''quota exceeded''"]
    by simp
qed

text \<open>
  Claim C10. For every request body whose \<^verbatim>\<open>messages\<close> is not an array (absent, null, a
  string, a number, an object, or no body at all), the chat handler answers with status
  500 and an object \<^verbatim>\<open>{ error: <non-empty message> }\<close>, and hands nothing to the model.
  When the key is set and the client exists, the error is the type error raised on
  lines 113 to 116, answered by the catch of lines 165 to 170.
\<close>

theorem chat_without_messages_array:
  assumes "\<forall>ms. destructure req_body ''messages'' \<noteq> Inr (Some (JArr ms))"
  shows "status (fst (post_chat srv generateContent req_body)) = 500 \<and>
         (\<exists>msg. msg \<noteq> [] \<and>
            body (fst (post_chat srv generateContent req_body)) = [(''error'', Json (JStr msg))]) \<and>
         snd (post_chat srv generateContent req_body) = [] \<and>
         (truthy (GEMINI_API_KEY srv) \<and> genAI srv \<noteq> None \<longrightarrow>
            (\<exists>msg. build_prompt req_body = Inl (TypeError msg) \<and>
               fst (post_chat srv generateContent req_body) = chat_failure (TypeError msg)))"
proof -
  from messages_array_fails [OF assms] obtain msg where
    msg: "msg \<noteq> []" "messages_array req_body = Inl (TypeError msg)" by blast
  then have b: "build_prompt req_body = Inl (TypeError msg)"
    by (simp add: build_prompt_def)
  show ?thesis
    using msg(1) b by (auto simp: post_chat_def chat_failure_def)
qed

text \<open>
  A body that spells the key \<^verbatim>\<open>message\<close>: V8's type error text is the response.
\<close>

theorem chat_without_messages_array_witness:
  "(\<forall>ms. destructure (Some (JObj [(''message'', JStr ''I need a blog'')])) ''messages'' \<noteq>
           Inr (Some (JArr ms))) \<and>
   post_chat \<lparr>GEMINI_API_KEY = Some ''key'', genAI = Some ''key'', db = None\<rparr>
     (answering ''What is the blog about?'')
     (Some (JObj [(''message'', JStr ''I need a blog'')])) =
   (\<lparr>status = 500,
     body = [(''error'', Json (JStr ''Cannot read properties of undefined (reading 'filter')''))]\<rparr>,
    [])"
proof -
  let ?req = "Some (JObj [(''message'', JStr ''I need a blog'')])"
  let ?srv = "\<lparr>GEMINI_API_KEY = Some ''key'', genAI = Some ''key'', db = None\<rparr>"
  have h: "\<forall>ms. destructure ?req ''messages'' \<noteq> Inr (Some (JArr ms))" by simp
  have "build_prompt ?req =
          Inl (TypeError ''Cannot read properties of undefined (reading 'filter')'')"
    by (simp add: build_prompt_def messages_array_def)
  with chat_without_messages_array [OF h, of ?srv "answering ''What is the blog about?''"]
  have "fst (post_chat ?srv (answering ''What is the blog about?'') ?req) =
          chat_failure (TypeError ''Cannot read properties of undefined (reading 'filter')'')"
    and "snd (post_chat ?srv (answering ''What is the blog about?'') ?req) = []"
    by simp_all
  then have "post_chat ?srv (answering ''What is the blog about?'') ?req =
     (\<lparr>status = 500,
       body = [(''error'', Json (JStr ''Cannot read properties of undefined (reading 'filter')''))]\<rparr>,
      [])"
    by (simp add: prod_eq_iff chat_failure_def error_json_def)
  with h show ?thesis by blast
qed

text \<open>
  Claim C8, as amended. The status endpoint answers 200 with \<^verbatim>\<open>server\<close> true, with
  \<^verbatim>\<open>gemini\<close> true exactly when the environment variable \<^verbatim>\<open>GEMINI_API_KEY\<close> is set and not
  empty (the model client is not consulted), and with \<^verbatim>\<open>database\<close> true exactly when the
  database handle exists and the ping of line 84 succeeds.
\<close>

theorem status_report:
  "fst (get_status srv m) =
     \<lparr>status = 200,
      body = [(''server'', Json (JBool True)),
              (''gemini'', Json (JBool (truthy (GEMINI_API_KEY srv)))),
              (''database'', Json (JBool (db srv \<noteq> None \<and> reachable m)))]\<rparr>"
  by (simp add: get_status_def ping_def)

text \<open>
  The status of a process whose key is set to the empty string and whose database
  answers.
\<close>

theorem status_report_witness:
  "fst (get_status \<lparr>GEMINI_API_KEY = Some '''', genAI = None, db = Some ''schema_designer''\<rparr>
          \<lparr>reachable = True, unique_id_index = True, projects = [],
           next_object_id = 0, commands = []\<rparr>) =
     \<lparr>status = 200,
      body = [(''server'', Json (JBool True)), (''gemini'', Json (JBool False)),
              (''database'', Json (JBool True))]\<rparr>"
  using status_report [of "\<lparr>GEMINI_API_KEY = Some '''', genAI = None, db = Some ''schema_designer''\<rparr>"
      "\<lparr>reachable = True, unique_id_index = True, projects = [],
        next_object_id = 0, commands = []\<rparr>"]
  by simp

text \<open>
  The \<^verbatim>\<open>gemini\<close> flag does not tell whether the model client is live. With the key set
  and a client constructor that throws, line 68 leaves \<^verbatim>\<open>genAI\<close> undefined: the status
  reports \<^verbatim>\<open>gemini: true\<close> while the chat handler answers that the client is not
  initialized. With a client whose calls the model service rejects, the status reports
  \<^verbatim>\<open>gemini: true\<close> all the same.
\<close>

theorem status_gemini_counterexample:
  "init_genAI (Some ''key'') (rejecting ''client library failed'') = None \<and>
   map_of (body (fst (get_status \<lparr>GEMINI_API_KEY = Some ''key'', genAI = None, db = None\<rparr>
                        \<lparr>reachable = True, unique_id_index = True, projects = [],
                         next_object_id = 0, commands = []\<rparr>))) ''gemini'' =
     Some (Json (JBool True)) \<and>
   fst (post_chat \<lparr>GEMINI_API_KEY = Some ''key'', genAI = None, db = None\<rparr>
          (answering ''What is the blog about?'')
          (chat_request [\<lparr>role = ''user'', content = ''I need a blog''\<rparr>])) =
     \<lparr>status = 500,
      body = [(''error'',
               Json (JStr ''Gemini client is not initialized. Please check your API key.''))]\<rparr> \<and>
   map_of (body (fst (get_status \<lparr>GEMINI_API_KEY = Some ''key'', genAI = Some ''key'', db = None\<rparr>
                        \<lparr>reachable = True, unique_id_index = True, projects = [],
                         next_object_id = 0, commands = []\<rparr>))) ''gemini'' =
     Some (Json (JBool True)) \<and>
   fst (post_chat \<lparr>GEMINI_API_KEY = Some ''key'', genAI = Some ''key'', db = None\<rparr>
          (rejecting ''API key not valid'')
          (chat_request [\<lparr>role = ''user'', content = ''I need a blog''\<rparr>])) =
     \<lparr>status = 500, body = [(''error'', Json (JStr ''API key not valid''))]\<rparr>"
  by (simp add: init_genAI_def get_status_def post_chat_def error_json_def chat_failure_def
      build_prompt_carries [OF carries_chat_request])

section \<open>Properties of the project store gateway\<close>

lemma find_set_first:
  "find (\<lambda>q. project_id q = i) ps = Some p \<Longrightarrow>
   find (\<lambda>q. project_id q = i) (set_first i nm sch u ps) =
     Some (p\<lparr>name := nm, schema := sch, updatedAt := u\<rparr>)"
  by (induction ps) (auto split: if_splits)

lemma find_set_first_other:
  "j \<noteq> i \<Longrightarrow>
   find (\<lambda>q. project_id q = j) (set_first i nm sch u ps) = find (\<lambda>q. project_id q = j) ps"
  by (induction ps) auto

lemma set_first_absent:
  "find (\<lambda>q. project_id q = i) ps = None \<Longrightarrow> set_first i nm sch u ps = ps"
  by (induction ps) (auto split: if_splits)

lemma find_snoc:
  "find P xs = None \<Longrightarrow> find P (xs @ [x]) = (if P x then Some x else None)"
  by (induction xs) (auto split: if_splits)

lemma destructure_Some:
  "v \<noteq> JNull \<Longrightarrow> \<exists>x. destructure (Some v) k = Inr x"
  by (cases v) simp_all

lemma project_ids_set_first:
  "map project_id (set_first j nm sch u ps) = map project_id ps"
  by (induction ps) simp_all

lemma project_with_None_iff:
  "project_with i m = None \<longleftrightarrow> i \<notin> set (map project_id (projects m))"
  by (auto simp: project_with_def find_None_iff)

lemma projects_received [simp]: "projects (received c m) = projects m"
  by (simp add: received_def)

lemma projects_get_status: "projects (snd (get_status srv m)) = projects m"
  by (simp add: get_status_def ping_def split: prod.splits)

lemma projects_get_project: "projects (snd (get_project srv i m)) = projects m"
  by (simp add: get_project_def findOne_def split: option.splits)

lemma project_ids_put_project:
  "map project_id (projects (snd (put_project srv now i req_body m))) =
   map project_id (projects m)"
  by (simp add: put_project_def updateOne_def project_ids_set_first
      split: sum.splits prod.splits)

lemma project_ids_post_project:
  "set (map project_id (projects (snd (post_project srv nanoid now req_body m)))) \<subseteq>
   insert nanoid (set (map project_id (projects m)))"
  by (auto simp: post_project_def insertOne_def split: sum.splits prod.splits)

lemma project_ids_after:
  assumes "i \<in> set (map project_id (projects (after srv e m)))"
  shows "i \<in> set (map project_id (projects m)) \<or> mints i e"
proof (cases e)
  case Status
  with assms show ?thesis by (simp add: projects_get_status)
next
  case (Read j)
  with assms show ?thesis by (simp add: projects_get_project)
next
  case (Create nanoid now req_body)
  with assms project_ids_post_project [of srv nanoid now req_body m]
  show ?thesis by auto
next
  case (Update now j req_body)
  with assms show ?thesis by (simp add: project_ids_put_project)
next
  case Outage
  with assms show ?thesis by simp
next
  case Recovery
  with assms show ?thesis by simp
qed

lemma never_created_absent:
  "project_with i m = None \<Longrightarrow> list_all (\<lambda>e. \<not> mints i e) es \<Longrightarrow>
   project_with i (serve srv es m) = None"
proof (induction es arbitrary: m)
  case Nil
  then show ?case by simp
next
  case (Cons e es)
  from Cons.prems have "project_with i (after srv e m) = None"
    using project_ids_after [of i srv e m] by (auto simp: project_with_None_iff)
  with Cons show ?case by simp
qed

text \<open>
  Claim C4. For every project in the store and every update call on its \<^verbatim>\<open>id\<close> (with the
  database connected and answering), the call succeeds, and afterwards the project has
  the submitted \<^verbatim>\<open>name\<close> and \<^verbatim>\<open>schema\<close> and the clock reading as \<^verbatim>\<open>updatedAt\<close>, while its
  \<^verbatim>\<open>id\<close>, \<^verbatim>\<open>schemaType\<close>, \<^verbatim>\<open>conversation\<close>, \<^verbatim>\<open>createdAt\<close> and \<^verbatim>\<open>_id\<close> are what they were; the
  projects with other identifiers are what they were.
\<close>

theorem update_frame:
  assumes "db srv \<noteq> None" and "reachable m"
    and "project_with i m = Some p"
    and "destructure req_body ''name'' = Inr nm"
    and "destructure req_body ''schema'' = Inr sch"
  shows "fst (put_project srv now i req_body m) =
           \<lparr>status = 200, body = [(''success'', Json (JBool True))]\<rparr> \<and>
         (\<exists>p'. project_with i (snd (put_project srv now i req_body m)) = Some p' \<and>
            name p' = bson nm \<and> schema p' = bson sch \<and> updatedAt p' = now \<and>
            project_id p' = project_id p \<and> schemaType p' = schemaType p \<and>
            conversation p' = conversation p \<and> createdAt p' = createdAt p \<and>
            object_id p' = object_id p) \<and>
         (\<forall>j. j \<noteq> i \<longrightarrow>
            project_with j (snd (put_project srv now i req_body m)) = project_with j m)"
proof -
  have put: "put_project srv now i req_body m =
      (\<lparr>status = 200, body = [(''success'', Json (JBool True))]\<rparr>,
       received (UpdateOne i)
         (m\<lparr>projects := set_first i (bson nm) (bson sch) now (projects m)\<rparr>))"
    using assms by (simp add: put_project_def updateOne_def del: not_None_eq)
  have "project_with i (snd (put_project srv now i req_body m)) =
          Some (p\<lparr>name := bson nm, schema := bson sch, updatedAt := now\<rparr>)"
    using assms(3) by (simp add: put project_with_def received_def find_set_first)
  moreover have "project_with j (snd (put_project srv now i req_body m)) = project_with j m"
    if "j \<noteq> i" for j
    using that by (simp add: put project_with_def received_def find_set_first_other)
  ultimately show ?thesis using put by simp
qed

text \<open>
  The scenario of the specification: \<^verbatim>\<open>Blog\<close> becomes \<^verbatim>\<open>Blog2\<close> with the schema
  \<^verbatim>\<open>{ x: 1 }\<close>; a \<^verbatim>\<open>conversation\<close> in the body of the update is ignored.
\<close>

theorem update_frame_witness:
  "project_with ''V1StGXR8''
     \<lparr>reachable = True, unique_id_index = True,
      projects = [\<lparr>object_id = 0, project_id = ''V1StGXR8'', name = JStr ''Blog'',
                   schema = JObj [], schemaType = JStr ''mongodb'', conversation = JArr [],
                   createdAt = 1000, updatedAt = 1000\<rparr>],
      next_object_id = 1, commands = []\<rparr> =
     Some \<lparr>object_id = 0, project_id = ''V1StGXR8'', name = JStr ''Blog'',
           schema = JObj [], schemaType = JStr ''mongodb'', conversation = JArr [],
           createdAt = 1000, updatedAt = 1000\<rparr> \<and>
   fst (put_project \<lparr>GEMINI_API_KEY = None, genAI = None, db = Some ''schema_designer''\<rparr> 2000
          ''V1StGXR8''
          (Some (JObj [(''name'', JStr ''Blog2''), (''schema'', JObj [(''x'', JNum ''1'')]),
                       (''conversation'', JArr [JStr ''ignored''])]))
          \<lparr>reachable = True, unique_id_index = True,
           projects = [\<lparr>object_id = 0, project_id = ''V1StGXR8'', name = JStr ''Blog'',
                        schema = JObj [], schemaType = JStr ''mongodb'', conversation = JArr [],
                        createdAt = 1000, updatedAt = 1000\<rparr>],
           next_object_id = 1, commands = []\<rparr>) =
     \<lparr>status = 200, body = [(''success'', Json (JBool True))]\<rparr> \<and>
   project_with ''V1StGXR8''
     (snd (put_project \<lparr>GEMINI_API_KEY = None, genAI = None, db = Some ''schema_designer''\<rparr> 2000
             ''V1StGXR8''
             (Some (JObj [(''name'', JStr ''Blog2''), (''schema'', JObj [(''x'', JNum ''1'')]),
                          (''conversation'', JArr [JStr ''ignored''])]))
             \<lparr>reachable = True, unique_id_index = True,
              projects = [\<lparr>object_id = 0, project_id = ''V1StGXR8'', name = JStr ''Blog'',
                           schema = JObj [], schemaType = JStr ''mongodb'', conversation = JArr [],
                           createdAt = 1000, updatedAt = 1000\<rparr>],
              next_object_id = 1, commands = []\<rparr>)) =
     Some \<lparr>object_id = 0, project_id = ''V1StGXR8'', name = JStr ''Blog2'',
           schema = JObj [(''x'', JNum ''1'')], schemaType = JStr ''mongodb'',
           conversation = JArr [], createdAt = 1000, updatedAt = 2000\<rparr>"
proof -
  let ?srv = "\<lparr>GEMINI_API_KEY = None, genAI = None, db = Some ''schema_designer''\<rparr>"
  let ?p = "\<lparr>object_id = 0, project_id = ''V1StGXR8'', name = JStr ''Blog'',
             schema = JObj [], schemaType = JStr ''mongodb'', conversation = JArr [],
             createdAt = 1000, updatedAt = 1000\<rparr>"
  let ?m = "\<lparr>reachable = True, unique_id_index = True, projects = [?p],
             next_object_id = 1, commands = []\<rparr>"
  let ?req = "Some (JObj [(''name'', JStr ''Blog2''), (''schema'', JObj [(''x'', JNum ''1'')]),
                          (''conversation'', JArr [JStr ''ignored''])])"
  have h1: "db ?srv \<noteq> None" by simp
  have h2: "reachable ?m" by simp
  have h3: "project_with ''V1StGXR8'' ?m = Some ?p" by (simp add: project_with_def)
  have h4: "destructure ?req ''name'' = Inr (Some (JStr ''Blog2''))" by simp
  have h5: "destructure ?req ''schema'' = Inr (Some (JObj [(''x'', JNum ''1'')]))" by simp
  note uf = update_frame [OF h1 h2 h3 h4 h5, of 2000]
  from uf have a: "fst (put_project ?srv 2000 ''V1StGXR8'' ?req ?m) =
      \<lparr>status = 200, body = [(''success'', Json (JBool True))]\<rparr>"
    by (rule conjunct1)
  from uf obtain p' where p': "project_with ''V1StGXR8'' (snd (put_project ?srv 2000 ''V1StGXR8'' ?req ?m)) = Some p'"
    "name p' = JStr ''Blog2''" "schema p' = JObj [(''x'', JNum ''1'')]" "updatedAt p' = 2000"
    "project_id p' = ''V1StGXR8''" "schemaType p' = JStr ''mongodb''"
    "conversation p' = JArr []" "createdAt p' = 1000" "object_id p' = 0"
    by auto
  from p'(2-9) have "p' = \<lparr>object_id = 0, project_id = ''V1StGXR8'', name = JStr ''Blog2'',
           schema = JObj [(''x'', JNum ''1'')], schemaType = JStr ''mongodb'',
           conversation = JArr [], createdAt = 1000, updatedAt = 2000\<rparr>"
    by (cases p') simp
  with p'(1) h3 a show ?thesis by simp
qed

text \<open>
  Claim C5. For every create call that answers 201 (with the unique index in place, or
  with a freshly minted identifier) and that submits \<^verbatim>\<open>name\<close>, \<^verbatim>\<open>schema\<close>, \<^verbatim>\<open>schemaType\<close> and
  \<^verbatim>\<open>conversation\<close>, the response is \<^verbatim>\<open>{ id }\<close> with the minted identifier, and a read
  with that identifier answers 200 with an object of exactly the seven keys \<^verbatim>\<open>id\<close>,
  \<^verbatim>\<open>name\<close>, \<^verbatim>\<open>schema\<close>, \<^verbatim>\<open>schemaType\<close>, \<^verbatim>\<open>conversation\<close>, \<^verbatim>\<open>createdAt\<close>, \<^verbatim>\<open>updatedAt\<close> (the
  store's \<^verbatim>\<open>_id\<close> is not among them), holding the submitted values and twice the clock
  reading of the creation.
\<close>

theorem create_then_read:
  assumes "post_project srv nanoid now req_body m = (r, m1)" and "status r = 201"
    and "unique_id_index m \<or> project_with nanoid m = None"
    and "destructure req_body ''name'' = Inr (Some nm)"
    and "destructure req_body ''schema'' = Inr (Some sch)"
    and "destructure req_body ''schemaType'' = Inr (Some sty)"
    and "destructure req_body ''conversation'' = Inr (Some conv)"
  shows "r = \<lparr>status = 201, body = [(''id'', Json (JStr nanoid))]\<rparr> \<and>
         fst (get_project srv nanoid m1) =
           \<lparr>status = 200,
            body = [(''id'', Json (JStr nanoid)),
                    (''name'', Json nm),
                    (''schema'', Json sch),
                    (''schemaType'', Json sty),
                    (''conversation'', Json conv),
                    (''createdAt'', Date now),
                    (''updatedAt'', Date now)]\<rparr>"
proof -
  from assms(1,2) have d: "db srv \<noteq> None"
    by (auto simp: post_project_def simp del: not_None_eq split: if_splits)
  from assms(1,2,4-7) d have ins: "\<exists>n. insertOne nanoid (Some nm) (Some sch) (Some sty) (Some conv) now now m = (Inr n, m1)"
    by (auto simp: post_project_def simp del: not_None_eq split: prod.splits sum.splits)
  then have re: "reachable m" and fresh: "project_with nanoid m = None"
    using assms(3) by (auto simp: insertOne_def split: if_splits)
  from ins re fresh have m1: "m1 = received (InsertOne nanoid)
           (m\<lparr>projects := projects m @
                 [\<lparr>object_id = next_object_id m, project_id = nanoid, name = nm,
                   schema = sch, schemaType = sty, conversation = conv,
                   createdAt = now, updatedAt = now\<rparr>],
              next_object_id := Suc (next_object_id m)\<rparr>)"
    by (auto simp: insertOne_def)
  from assms(1,2,4-7) d have r: "r = \<lparr>status = 201, body = [(''id'', Json (JStr nanoid))]\<rparr>"
    by (auto simp: post_project_def simp del: not_None_eq split: prod.splits sum.splits)
  have "project_with nanoid m1 =
          Some \<lparr>object_id = next_object_id m, project_id = nanoid, name = nm,
                schema = sch, schemaType = sty, conversation = conv,
                createdAt = now, updatedAt = now\<rparr>"
    using fresh by (simp add: m1 project_with_def received_def find_snoc)
  moreover have "reachable m1" using re by (simp add: m1 received_def)
  ultimately show ?thesis using r d
    by (simp add: get_project_def findOne_def del: not_None_eq)
qed

text \<open>
  The scenario of the specification: create \<^verbatim>\<open>Blog\<close> in an empty collection, then read it.
\<close>

theorem create_then_read_witness:
  "status (fst (post_project \<lparr>GEMINI_API_KEY = None, genAI = None, db = Some ''schema_designer''\<rparr>
                  ''V1StGXR8'' 1000
                  (Some (JObj [(''name'', JStr ''Blog''), (''schema'', JObj []),
                               (''schemaType'', JStr ''mongodb''), (''conversation'', JArr [])]))
                  \<lparr>reachable = True, unique_id_index = True, projects = [],
                   next_object_id = 0, commands = []\<rparr>)) = 201 \<and>
   fst (get_project \<lparr>GEMINI_API_KEY = None, genAI = None, db = Some ''schema_designer''\<rparr>
          ''V1StGXR8''
          (snd (post_project \<lparr>GEMINI_API_KEY = None, genAI = None, db = Some ''schema_designer''\<rparr>
                  ''V1StGXR8'' 1000
                  (Some (JObj [(''name'', JStr ''Blog''), (''schema'', JObj []),
                               (''schemaType'', JStr ''mongodb''), (''conversation'', JArr [])]))
                  \<lparr>reachable = True, unique_id_index = True, projects = [],
                   next_object_id = 0, commands = []\<rparr>))) =
     \<lparr>status = 200,
      body = [(''id'', Json (JStr ''V1StGXR8'')),
              (''name'', Json (JStr ''Blog'')),
              (''schema'', Json (JObj [])),
              (''schemaType'', Json (JStr ''mongodb'')),
              (''conversation'', Json (JArr [])),
              (''createdAt'', Date 1000),
              (''updatedAt'', Date 1000)]\<rparr>"
proof -
  let ?srv = "\<lparr>GEMINI_API_KEY = None, genAI = None, db = Some ''schema_designer''\<rparr>"
  let ?m = "\<lparr>reachable = True, unique_id_index = True, projects = [],
             next_object_id = 0, commands = []\<rparr>"
  let ?req = "Some (JObj [(''name'', JStr ''Blog''), (''schema'', JObj []),
                          (''schemaType'', JStr ''mongodb''), (''conversation'', JArr [])])"
  let ?res = "post_project ?srv ''V1StGXR8'' 1000 ?req ?m"
  have h1: "?res = (fst ?res, snd ?res)" by simp
  have h2: "status (fst ?res) = 201"
    by (simp add: post_project_def insertOne_def project_with_def)
  have h3: "unique_id_index ?m \<or> project_with ''V1StGXR8'' ?m = None" by simp
  have h4: "destructure ?req ''name'' = Inr (Some (JStr ''Blog''))" by simp
  have h5: "destructure ?req ''schema'' = Inr (Some (JObj []))" by simp
  have h6: "destructure ?req ''schemaType'' = Inr (Some (JStr ''mongodb''))" by simp
  have h7: "destructure ?req ''conversation'' = Inr (Some (JArr []))" by simp
  from create_then_read [OF h1 h2 h3 h4 h5 h6 h7] h2 show ?thesis by blast
qed

text \<open>
  Claim C6. Take a store without a project of identifier \<open>i\<close> (an empty collection,
  say) and let any calls and outages follow, none of them a create call that mints
  \<open>i\<close>: no project with \<open>i\<close> was ever created. Then, with the database connected and
  answering, a read of \<open>i\<close> answers 404 and an update of \<open>i\<close> answers 404, and the
  projects of the store are the same after the failed update as before: nothing is
  created.
\<close>

theorem missing_project_not_found:
  assumes "project_with i m0 = None" and "list_all (\<lambda>e. \<not> mints i e) es"
    and "m = serve srv es m0"
    and "db srv \<noteq> None" and "reachable m"
    and "req_body = Some v" and "v \<noteq> JNull"
  shows "fst (get_project srv i m) =
           \<lparr>status = 404, body = [(''error'', Json (JStr ''Project not found''))]\<rparr> \<and>
         projects (snd (get_project srv i m)) = projects m \<and>
         fst (put_project srv now i req_body m) =
           \<lparr>status = 404, body = [(''error'', Json (JStr ''Project not found''))]\<rparr> \<and>
         projects (snd (put_project srv now i req_body m)) = projects m"
proof -
  have absent: "project_with i m = None"
    unfolding assms(3) by (rule never_created_absent [OF assms(1,2)])
  from destructure_Some [OF assms(7)] obtain nm sch where
    "destructure req_body ''name'' = Inr nm" "destructure req_body ''schema'' = Inr sch"
    unfolding assms(6) by blast
  moreover from absent have "set_first i a b c (projects m) = projects m" for a b c
    by (simp add: project_with_def set_first_absent)
  ultimately show ?thesis
    using assms(4,5) absent
    by (simp add: get_project_def findOne_def put_project_def updateOne_def
        error_json_def del: not_None_eq)
qed

text \<open>
  An empty collection, in which \<^verbatim>\<open>Blog\<close> is created, read and renamed, with an outage in
  between; then another identifier is asked for.
\<close>

theorem missing_project_not_found_witness:
  "project_with ''never''
     \<lparr>reachable = True, unique_id_index = True, projects = [],
      next_object_id = 0, commands = []\<rparr> = None \<and>
   list_all (\<lambda>e. \<not> mints ''never'' e)
     [Create ''V1StGXR8'' 1000
        (Some (JObj [(''name'', JStr ''Blog''), (''schema'', JObj []),
                     (''schemaType'', JStr ''mongodb''), (''conversation'', JArr [])])),
      Read ''V1StGXR8'', Outage, Read ''never'', Recovery,
      Update 2000 ''V1StGXR8'' (Some (JObj [(''name'', JStr ''Blog2''), (''schema'', JObj [])]))] \<and>
   fst (get_project \<lparr>GEMINI_API_KEY = None, genAI = None, db = Some ''schema_designer''\<rparr> ''never''
          (serve \<lparr>GEMINI_API_KEY = None, genAI = None, db = Some ''schema_designer''\<rparr>
             [Create ''V1StGXR8'' 1000
                (Some (JObj [(''name'', JStr ''Blog''), (''schema'', JObj []),
                             (''schemaType'', JStr ''mongodb''), (''conversation'', JArr [])])),
              Read ''V1StGXR8'', Outage, Read ''never'', Recovery,
              Update 2000 ''V1StGXR8''
                (Some (JObj [(''name'', JStr ''Blog2''), (''schema'', JObj [])]))]
             \<lparr>reachable = True, unique_id_index = True, projects = [],
              next_object_id = 0, commands = []\<rparr>)) =
     \<lparr>status = 404, body = [(''error'', Json (JStr ''Project not found''))]\<rparr> \<and>
   fst (put_project \<lparr>GEMINI_API_KEY = None, genAI = None, db = Some ''schema_designer''\<rparr> 3000
          ''never'' (Some (JObj [(''name'', JStr ''Other''), (''schema'', JObj [])]))
          (serve \<lparr>GEMINI_API_KEY = None, genAI = None, db = Some ''schema_designer''\<rparr>
             [Create ''V1StGXR8'' 1000
                (Some (JObj [(''name'', JStr ''Blog''), (''schema'', JObj []),
                             (''schemaType'', JStr ''mongodb''), (''conversation'', JArr [])])),
              Read ''V1StGXR8'', Outage, Read ''never'', Recovery,
              Update 2000 ''V1StGXR8''
                (Some (JObj [(''name'', JStr ''Blog2''), (''schema'', JObj [])]))]
             \<lparr>reachable = True, unique_id_index = True, projects = [],
              next_object_id = 0, commands = []\<rparr>)) =
     \<lparr>status = 404, body = [(''error'', Json (JStr ''Project not found''))]\<rparr> \<and>
   projects
     (snd (put_project \<lparr>GEMINI_API_KEY = None, genAI = None, db = Some ''schema_designer''\<rparr> 3000
             ''never'' (Some (JObj [(''name'', JStr ''Other''), (''schema'', JObj [])]))
             (serve \<lparr>GEMINI_API_KEY = None, genAI = None, db = Some ''schema_designer''\<rparr>
                [Create ''V1StGXR8'' 1000
                   (Some (JObj [(''name'', JStr ''Blog''), (''schema'', JObj []),
                                (''schemaType'', JStr ''mongodb''), (''conversation'', JArr [])])),
                 Read ''V1StGXR8'', Outage, Read ''never'', Recovery,
                 Update 2000 ''V1StGXR8''
                   (Some (JObj [(''name'', JStr ''Blog2''), (''schema'', JObj [])]))]
                \<lparr>reachable = True, unique_id_index = True, projects = [],
                 next_object_id = 0, commands = []\<rparr>))) =
     [\<lparr>object_id = 0, project_id = ''V1StGXR8'', name = JStr ''Blog2'',
       schema = JObj [], schemaType = JStr ''mongodb'', conversation = JArr [],
       createdAt = 1000, updatedAt = 2000\<rparr>]"
proof -
  let ?srv = "\<lparr>GEMINI_API_KEY = None, genAI = None, db = Some ''schema_designer''\<rparr>"
  let ?m0 = "\<lparr>reachable = True, unique_id_index = True, projects = [],
              next_object_id = 0, commands = []\<rparr>"
  let ?es = "[Create ''V1StGXR8'' 1000
                (Some (JObj [(''name'', JStr ''Blog''), (''schema'', JObj []),
                             (''schemaType'', JStr ''mongodb''), (''conversation'', JArr [])])),
              Read ''V1StGXR8'', Outage, Read ''never'', Recovery,
              Update 2000 ''V1StGXR8''
                (Some (JObj [(''name'', JStr ''Blog2''), (''schema'', JObj [])]))]"
  let ?v = "JObj [(''name'', JStr ''Other''), (''schema'', JObj [])]"
  have h1: "project_with ''never'' ?m0 = None" by (simp add: project_with_def)
  have h2: "list_all (\<lambda>e. \<not> mints ''never'' e) ?es" by simp
  have m: "serve ?srv ?es ?m0 =
      \<lparr>reachable = True, unique_id_index = True,
       projects = [\<lparr>object_id = 0, project_id = ''V1StGXR8'', name = JStr ''Blog2'',
                    schema = JObj [], schemaType = JStr ''mongodb'', conversation = JArr [],
                    createdAt = 1000, updatedAt = 2000\<rparr>],
       next_object_id = 1,
       commands = [InsertOne ''V1StGXR8'', FindOne ''V1StGXR8'', FindOne ''never'',
                   UpdateOne ''V1StGXR8'']\<rparr>"
    by (simp add: post_project_def insertOne_def get_project_def findOne_def put_project_def
        updateOne_def project_with_def received_def)
  have h4: "db ?srv \<noteq> None" by simp
  have h5: "reachable (serve ?srv ?es ?m0)" by (simp only: m) simp
  have h7: "?v \<noteq> JNull" by simp
  note t = missing_project_not_found [OF h1 h2 refl h4 h5 refl h7, of 3000]
  from t have "projects (snd (put_project ?srv 3000 ''never'' (Some ?v) (serve ?srv ?es ?m0))) =
      projects (serve ?srv ?es ?m0)" by blast
  then have "projects (snd (put_project ?srv 3000 ''never'' (Some ?v) (serve ?srv ?es ?m0))) =
      [\<lparr>object_id = 0, project_id = ''V1StGXR8'', name = JStr ''Blog2'',
        schema = JObj [], schemaType = JStr ''mongodb'', conversation = JArr [],
        createdAt = 1000, updatedAt = 2000\<rparr>]"
    by (simp only: m) simp
  with t h1 h2 show ?thesis by blast
qed

text \<open>
  Claim C7. When the database handle is undefined, read, create and update each answer
  500 with the error \<^verbatim>\<open>Database connection not available\<close>, and the state of the database
  server, the list of commands it has received included, is the one before the call: no
  command is sent.
\<close>

theorem store_unavailable:
  assumes "db srv = None"
  shows "get_project srv i m =
           (\<lparr>status = 500,
             body = [(''error'', Json (JStr ''Database connection not available''))]\<rparr>, m) \<and>
         post_project srv nanoid now req_body m =
           (\<lparr>status = 500,
             body = [(''error'', Json (JStr ''Database connection not available''))]\<rparr>, m) \<and>
         put_project srv now i req_body m =
           (\<lparr>status = 500,
             body = [(''error'', Json (JStr ''Database connection not available''))]\<rparr>, m)"
  using assms by (simp add: get_project_def post_project_def put_project_def error_json_def)

text \<open>
  A create call to a process without a database handle.
\<close>

theorem store_unavailable_witness:
  "db \<lparr>GEMINI_API_KEY = Some ''key'', genAI = Some ''key'', db = None\<rparr> = None \<and>
   post_project \<lparr>GEMINI_API_KEY = Some ''key'', genAI = Some ''key'', db = None\<rparr> ''V1StGXR8'' 1000
     (Some (JObj [(''name'', JStr ''Blog''), (''schema'', JObj []),
                  (''schemaType'', JStr ''mongodb''), (''conversation'', JArr [])]))
     \<lparr>reachable = True, unique_id_index = True, projects = [],
      next_object_id = 0, commands = []\<rparr> =
   (\<lparr>status = 500, body = [(''error'', Json (JStr ''Database connection not available''))]\<rparr>,
    \<lparr>reachable = True, unique_id_index = True, projects = [],
     next_object_id = 0, commands = []\<rparr>)"
proof -
  let ?srv = "\<lparr>GEMINI_API_KEY = Some ''key'', genAI = Some ''key'', db = None\<rparr>"
  have h: "db ?srv = None" by simp
  from store_unavailable [OF h] h show ?thesis by blast
qed

end
